theory Spec2Isabelle
  imports Complex_Main
begin

section \<open>Values decoded from JSON, with Python's operations on them\<close>

text \<open>
  The client reads its credentials out of decoded JSON: the persisted file through
  \<^verbatim>\<open>json.loads\<close>, the responses through \<^verbatim>\<open>r.json()\<close>. A decoded document is
  \<^verbatim>\<open>None\<close>, a bool, an int, a float, a str, a list or a dict with str keys. A dict is an
  association list read with \<open>map_of\<close> (the first entry of a key is the dict's entry).
  A finite float is given by its value; only its being zero is ever looked at.
\<close>

datatype json =
    JNull
  | JBool bool
  | JInt int
  | JFloat rat
  | JStr string
  | JArr "json list"
  | JObj "(string \<times> json) list"

text \<open>
  The exceptions of the program: \<^verbatim>\<open>raise Exception(msg)\<close> of \<^verbatim>\<open>perform_auth\<close> and
  \<^verbatim>\<open>list\<close>, and the ones Python raises on a value of the wrong kind: \<^verbatim>\<open>x.get\<close> or
  \<^verbatim>\<open>x.exists\<close> on a value without that attribute, \<^verbatim>\<open>k in x\<close> on a value that is no
  container, \<^verbatim>\<open>r.json()\<close> on a body that is no JSON.
\<close>

datatype error =
    Exception string
  | AttributeError
  | TypeError
  | JSONDecodeError

text \<open>Truth value of a decoded value, as \<^verbatim>\<open>if x\<close>, \<^verbatim>\<open>x and y\<close>, \<^verbatim>\<open>x or y\<close> test it.\<close>

fun truthy :: "json \<Rightarrow> bool" where
  "truthy JNull = False"
| "truthy (JBool b) = b"
| "truthy (JInt i) = (i \<noteq> 0)"
| "truthy (JFloat q) = (q \<noteq> 0)"
| "truthy (JStr s) = (s \<noteq> [])"
| "truthy (JArr xs) = (xs \<noteq> [])"
| "truthy (JObj d) = (d \<noteq> [])"

text \<open>\<^verbatim>\<open>d.get(k)\<close> of a dict: the entry, \<^verbatim>\<open>None\<close> for a missing key.\<close>

definition dict_get :: "(string \<times> json) list \<Rightarrow> string \<Rightarrow> json" where
  "dict_get d k = (case map_of d k of None \<Rightarrow> JNull | Some v \<Rightarrow> v)"

text \<open>\<^verbatim>\<open>x.get(k)\<close> of any decoded value: only a dict has the method.\<close>

fun py_get :: "json \<Rightarrow> string \<Rightarrow> error + json" where
  "py_get (JObj d) k = Inr (dict_get d k)"
| "py_get _ k = Inl AttributeError"

text \<open>\<^verbatim>\<open>a in b\<close> of two strs: \<open>a\<close> occurs in \<open>b\<close> as a contiguous piece.\<close>

primrec str_in :: "string \<Rightarrow> string \<Rightarrow> bool" where
  "str_in a [] = (a = [])"
| "str_in a (c # cs) = (take (length a) (c # cs) = a \<or> str_in a cs)"

text \<open>
  \<^verbatim>\<open>k in x\<close> for a str \<open>k\<close>: a key of a dict, an element of a list, a piece of a
  str; any other decoded value is no container.
\<close>

fun py_in :: "string \<Rightarrow> json \<Rightarrow> error + bool" where
  "py_in k (JObj d) = Inr (map_of d k \<noteq> None)"
| "py_in k (JArr xs) = Inr (JStr k \<in> set xs)"
| "py_in k (JStr s) = Inr (str_in k s)"
| "py_in k _ = Inl TypeError"

text \<open>Decimal digits of an int, as an f-string writes it.\<close>

definition digit_char :: "nat \<Rightarrow> char" where
  "digit_char d = ''0123456789'' ! d"

fun str_nat :: "nat \<Rightarrow> string" where
  "str_nat n = (if n < 10 then [digit_char n] else str_nat (n div 10) @ [digit_char (n mod 10)])"

declare str_nat.simps [simp del]

definition str_int :: "int \<Rightarrow> string" where
  "str_int i = (if i < 0 then ''-'' @ str_nat (nat (- i)) else str_nat (nat i))"

section \<open>The world around the client\<close>

datatype http_verb = GET | POST

record request =
  verb :: http_verb
  url :: string
  payload :: "json option"
  headers :: "(string \<times> string) list"

text \<open>
  A response as the client reads it: \<^verbatim>\<open>r.status_code\<close>, \<^verbatim>\<open>r.text\<close>, and
  \<^verbatim>\<open>r.json()\<close>, which is \<open>None\<close> when the body does not decode (the call raises).
\<close>

record response =
  status_code :: int
  resp_text :: string
  resp_json :: "json option"

text \<open>
  The modules the client calls. \<open>json_loads\<close> is \<open>None\<close> where \<^verbatim>\<open>json.loads\<close> raises;
  \<open>py_repr\<close> writes a float, list or dict the way an f-string does; \<open>http\<close> is the
  server behind \<^verbatim>\<open>requests.post\<close> and \<^verbatim>\<open>requests.get\<close>; \<open>input_line\<close> and
  \<open>getpass_line\<close> are what the user types at the two prompts. The transport, the
  console and the file system are taken to work: a call returns.
\<close>

record env =
  json_loads :: "string \<Rightarrow> json option"
  json_dumps :: "json \<Rightarrow> string"
  py_repr :: "json \<Rightarrow> string"
  http :: "request \<Rightarrow> response"
  input_line :: string
  getpass_line :: string

text \<open>\<^verbatim>\<open>f"{x}"\<close> of a decoded value.\<close>

fun py_str :: "env \<Rightarrow> json \<Rightarrow> string" where
  "py_str e JNull = ''None''"
| "py_str e (JBool b) = (if b then ''True'' else ''False'')"
| "py_str e (JInt i) = str_int i"
| "py_str e (JStr s) = s"
| "py_str e v = py_repr e v"

section \<open>The client\<close>

text \<open>
  The fields of \<^verbatim>\<open>JWTClient\<close> (\<open>access\<close>, \<open>refresh\<close>, \<open>header_type\<close>, \<open>base_endpoint\<close>,
  \<open>cred_path\<close>; \<^verbatim>\<open>None\<close> is \<open>JNull\<close> for a token and \<open>None\<close> for the path), and what
  the client acts on: the text files by path, and the requests sent so far, oldest
  first. What the program prints is left out.
\<close>

record state =
  access :: json
  refresh :: json
  header_type :: string
  base_endpoint :: string
  cred_path :: "string option"
  files :: "string \<rightharpoonup> string"
  sent :: "request list"

text \<open>A call that raises leaves the state it had reached, next to the exception.\<close>

type_synonym 'a outcome = "(error + 'a) \<times> state"

definition and_then :: "(state \<Rightarrow> 'a outcome) \<Rightarrow> ('a \<Rightarrow> state \<Rightarrow> 'b outcome) \<Rightarrow> state \<Rightarrow> 'b outcome" where
  "and_then m f s = (case m s of (Inl e, s') \<Rightarrow> (Inl e, s') | (Inr x, s') \<Rightarrow> f x s')"

definition done_with :: "'a \<Rightarrow> state \<Rightarrow> 'a outcome" where
  "done_with x s = (Inr x, s)"

definition send :: "env \<Rightarrow> request \<Rightarrow> state \<Rightarrow> response \<times> state" where
  "send e rq s = (http e rq, s\<lparr>sent := sent s @ [rq]\<rparr>)"

subsection \<open>get_headers\<close>

text \<open>
  Lines 49 to 56. \<^verbatim>\<open>header_type or self.header_type\<close> takes the argument unless it is
  \<^verbatim>\<open>None\<close> or empty; \<^verbatim>\<open>if not token\<close> is the truth value of the access token.
\<close>

definition get_headers :: "env \<Rightarrow> string option \<Rightarrow> state \<Rightarrow> (string \<times> string) list" where
  "get_headers e header_type_arg s =
     (let type0 = (case header_type_arg of
                     None \<Rightarrow> header_type s
                   | Some h \<Rightarrow> if h \<noteq> [] then h else header_type s);
          token = access s
      in if \<not> truthy token then []
         else [(''Authorization'', type0 @ '' '' @ py_str e token)])"

subsection \<open>write_creds\<close>

text \<open>
  Lines 69 to 74. Everything is under the guard \<^verbatim>\<open>self.cred_path is not None\<close>. The two
  tokens are assigned one after the other, then the file is written with
  \<^verbatim>\<open>json.dumps(data)\<close> if both are true.
\<close>

definition write_creds :: "env \<Rightarrow> json \<Rightarrow> state \<Rightarrow> unit outcome" where
  "write_creds e data s =
     (case cred_path s of
        None \<Rightarrow> (Inr (), s)
      | Some p \<Rightarrow>
          (case py_get data ''access'' of
             Inl err \<Rightarrow> (Inl err, s)
           | Inr a \<Rightarrow>
               let s1 = s\<lparr>access := a\<rparr> in
               (case py_get data ''refresh'' of
                  Inl err \<Rightarrow> (Inl err, s1)
                | Inr r \<Rightarrow>
                    let s2 = s1\<lparr>refresh := r\<rparr> in
                    if truthy (access s2) \<and> truthy (refresh s2)
                    then (Inr (), s2\<lparr>files := (files s2)(p \<mapsto> json_dumps e data)\<rparr>)
                    else (Inr (), s2))))"

subsection \<open>perform_auth\<close>

text \<open>
  Lines 58 to 67: the two prompts, the request with no header, the exception on a status
  other than 200, then \<^verbatim>\<open>self.write_creds(r.json())\<close>.
\<close>

definition auth_request :: "env \<Rightarrow> state \<Rightarrow> request" where
  "auth_request e s =
     \<lparr>verb = POST, url = base_endpoint s @ ''/token/'',
      payload = Some (JObj [(''username'', JStr (input_line e)),
                            (''password'', JStr (getpass_line e))]),
      headers = []\<rparr>"

definition perform_auth :: "env \<Rightarrow> state \<Rightarrow> unit outcome" where
  "perform_auth e s =
     (let (r, s1) = send e (auth_request e s) s in
      if status_code r \<noteq> 200
      then (Inl (Exception (''Access not granted: '' @ resp_text r)), s1)
      else (case resp_json r of
              None \<Rightarrow> (Inl JSONDecodeError, s1)
            | Some data \<Rightarrow> write_creds e data s1))"

subsection \<open>verify_token\<close>

text \<open>Lines 76 to 82.\<close>

definition verify_request :: "env \<Rightarrow> state \<Rightarrow> request" where
  "verify_request e s =
     \<lparr>verb = POST, url = base_endpoint s @ ''/token/verify/'',
      payload = Some (JObj [(''token'', JStr (py_str e (access s)))]),
      headers = []\<rparr>"

definition verify_token :: "env \<Rightarrow> state \<Rightarrow> bool outcome" where
  "verify_token e s =
     (let (r, s1) = send e (verify_request e s) s in
      (Inr (status_code r = 200), s1))"

subsection \<open>clear_tokens\<close>

text \<open>
  Lines 84 to 89. The tokens are set before the path is asked whether it exists, which
  raises on a path that is \<^verbatim>\<open>None\<close>.
\<close>

definition clear_tokens :: "state \<Rightarrow> unit outcome" where
  "clear_tokens s =
     (let s1 = s\<lparr>access := JNull\<rparr>;
          s2 = s1\<lparr>refresh := JNull\<rparr>
      in case cred_path s2 of
           None \<Rightarrow> (Inl AttributeError, s2)
         | Some p \<Rightarrow>
             if files s2 p \<noteq> None
             then (Inr (), s2\<lparr>files := (files s2)(p := None)\<rparr>)
             else (Inr (), s2))"

subsection \<open>perform_refresh\<close>

text \<open>
  Lines 91 to 111. The request carries the current authorization header. The stored data
  pairs the \<open>access\<close> of the response with the refresh token held.
\<close>

definition refresh_request :: "env \<Rightarrow> state \<Rightarrow> request" where
  "refresh_request e s =
     \<lparr>verb = POST, url = base_endpoint s @ ''/token/refresh/'',
      payload = Some (JObj [(''refresh'', JStr (py_str e (refresh s)))]),
      headers = get_headers e None s\<rparr>"

definition perform_refresh :: "env \<Rightarrow> state \<Rightarrow> bool outcome" where
  "perform_refresh e s =
     (let (r, s1) = send e (refresh_request e s) s in
      if status_code r \<noteq> 200
      then and_then clear_tokens (\<lambda>_. done_with False) s1
      else (case resp_json r of
              None \<Rightarrow> (Inl JSONDecodeError, s1)
            | Some refresh_data \<Rightarrow>
                (case py_in ''access'' refresh_data of
                   Inl err \<Rightarrow> (Inl err, s1)
                 | Inr False \<Rightarrow> and_then clear_tokens (\<lambda>_. done_with False) s1
                 | Inr True \<Rightarrow>
                     (case py_get refresh_data ''access'' of
                        Inl err \<Rightarrow> (Inl err, s1)
                      | Inr a \<Rightarrow>
                          and_then
                            (write_creds e (JObj [(''access'', a), (''refresh'', refresh s1)]))
                            (\<lambda>_. done_with True) s1))))"

subsection \<open>The initializer\<close>

text \<open>
  Lines 20 to 47, \<^verbatim>\<open>__post_init__\<close>. \<open>load_creds\<close> is lines 32 and 33. \<^verbatim>\<open>data\<close> is
  \<^verbatim>\<open>None\<close> when the file does not decode (the \<^verbatim>\<open>except\<close> branch) and when it decodes to
  \<^verbatim>\<open>None\<close>.
\<close>

definition load_creds :: "json \<Rightarrow> state \<Rightarrow> unit outcome" where
  "load_creds data s =
     (case py_get data ''access'' of
        Inl err \<Rightarrow> (Inl err, s)
      | Inr a \<Rightarrow>
          let s1 = s\<lparr>access := a\<rparr> in
          (case py_get data ''refresh'' of
             Inl err \<Rightarrow> (Inl err, s1)
           | Inr r \<Rightarrow> (Inr (), s1\<lparr>refresh := r\<rparr>)))"

definition post_init :: "env \<Rightarrow> state \<Rightarrow> unit outcome" where
  "post_init e s =
     (case cred_path s of
        None \<Rightarrow> (Inl AttributeError, s)
      | Some p \<Rightarrow>
          (case files s p of
             None \<Rightarrow> perform_auth e s
           | Some contents \<Rightarrow>
               let data = (case json_loads e contents of None \<Rightarrow> JNull | Some d \<Rightarrow> d) in
               if data = JNull
               then and_then clear_tokens (\<lambda>_. perform_auth e) s
               else
                 and_then (load_creds data) (\<lambda>_.
                 and_then (verify_token e) (\<lambda>token_verified.
                   if \<not> token_verified
                   then and_then (perform_refresh e) (\<lambda>refreshed.
                          if \<not> refreshed
                          then and_then clear_tokens (\<lambda>_. perform_auth e)
                          else done_with ())
                   else done_with ())) s))"

subsection \<open>list\<close>

text \<open>
  Lines 113 to 126, the method \<^verbatim>\<open>list\<close>, here \<open>list_api\<close>. The endpoint is a str or
  \<^verbatim>\<open>None\<close>, the limit an int.
\<close>

definition list_request :: "env \<Rightarrow> string option \<Rightarrow> int \<Rightarrow> state \<Rightarrow> request" where
  "list_request e endpoint limit s =
     (let hdrs = get_headers e None s;
          endpoint' = (case endpoint of
                         None \<Rightarrow> base_endpoint s @ ''/products/?limit='' @ str_int limit
                       | Some ep \<Rightarrow>
                           if \<not> str_in (base_endpoint s) ep
                           then base_endpoint s @ ''/products/?limit='' @ str_int limit
                           else ep)
      in \<lparr>verb = GET, url = endpoint', payload = None, headers = hdrs\<rparr>)"

definition list_api :: "env \<Rightarrow> string option \<Rightarrow> int \<Rightarrow> state \<Rightarrow> json outcome" where
  "list_api e endpoint limit s =
     (let (r, s1) = send e (list_request e endpoint limit s) s in
      if status_code r \<noteq> 200
      then (Inl (Exception (''Request not complete '' @ resp_text r)), s1)
      else (case resp_json r of
              None \<Rightarrow> (Inl JSONDecodeError, s1)
            | Some data \<Rightarrow> (Inr data, s1)))"

section \<open>Notions the properties are stated with\<close>

text \<open>
  A refresh response the client takes as a refusal: any status but 200, or a 200 whose
  decoded body is a container (dict, list or str) in which \<^verbatim>\<open>'access' in body\<close> is
  false.
\<close>

definition refresh_rejected :: "response \<Rightarrow> bool" where
  "refresh_rejected r =
     (status_code r \<noteq> 200 \<or>
      (case resp_json r of None \<Rightarrow> False | Some j \<Rightarrow> py_in ''access'' j = Inr False))"

text \<open>The tokens are paired when a missing access token comes with a missing refresh token.\<close>

definition tokens_paired :: "state \<Rightarrow> bool" where
  "tokens_paired s \<longleftrightarrow> (access s = JNull \<longrightarrow> refresh s = JNull)"

text \<open>
  A decoded document is a paired credential mapping when, being a dict, it has an
  \<open>access\<close> value other than \<^verbatim>\<open>None\<close>, or has no \<open>access\<close> key and no \<open>refresh\<close> value
  other than \<^verbatim>\<open>None\<close>. \<open>any_json\<close> puts no condition on a document.
\<close>

definition paired_creds :: "json \<Rightarrow> bool" where
  "paired_creds j =
     (case j of
        JObj d \<Rightarrow> dict_get d ''access'' \<noteq> JNull \<or>
                  (map_of d ''access'' = None \<and> dict_get d ''refresh'' = JNull)
      | _ \<Rightarrow> True)"

definition any_json :: "json \<Rightarrow> bool" where
  "any_json j = True"

text \<open>
  An environment feeds \<open>P\<close> when every document it hands to the client, decoded from a
  file or from a response body, satisfies \<open>P\<close>.
\<close>

definition feeds :: "(json \<Rightarrow> bool) \<Rightarrow> env \<Rightarrow> bool" where
  "feeds P e \<longleftrightarrow>
     (\<forall>t j. json_loads e t = Some j \<longrightarrow> P j) \<and>
     (\<forall>rq j. resp_json (http e rq) = Some j \<longrightarrow> P j)"

text \<open>
  The states a client can be in: the initializer returned (from any field values and
  any files), and then any of the methods ran, in any environment that feeds \<open>P\<close>, with
  any mapping satisfying \<open>P\<close> passed to \<^verbatim>\<open>write_creds\<close>. A method that raises leaves
  the client in the state it had reached.
\<close>

inductive reachable :: "(json \<Rightarrow> bool) \<Rightarrow> state \<Rightarrow> bool" for P :: "json \<Rightarrow> bool" where
  by_init: "feeds P e \<Longrightarrow> post_init e s0 = (Inr (), s) \<Longrightarrow> reachable P s"
| by_login: "reachable P s \<Longrightarrow> feeds P e \<Longrightarrow> reachable P (snd (perform_auth e s))"
| by_verify: "reachable P s \<Longrightarrow> reachable P (snd (verify_token e s))"
| by_refresh: "reachable P s \<Longrightarrow> feeds P e \<Longrightarrow> reachable P (snd (perform_refresh e s))"
| by_persist: "reachable P s \<Longrightarrow> P data \<Longrightarrow> reachable P (snd (write_creds e data s))"
| by_clear: "reachable P s \<Longrightarrow> reachable P (snd (clear_tokens s))"
| by_list: "reachable P s \<Longrightarrow> reachable P (snd (list_api e endpoint limit s))"

section \<open>Example clients, servers and environments\<close>

text \<open>
  Concrete inputs for the examples below. The example serializer writes a flat dict as
  \<open>key=value;\<close> pieces; the example parser knows the one stored file of the examples.
  A scripted server answers by the URL of the request.
\<close>

definition reply :: "int \<Rightarrow> string \<Rightarrow> json option \<Rightarrow> response" where
  "reply code body decoded = \<lparr>status_code = code, resp_text = body, resp_json = decoded\<rparr>"

definition scripted :: "response \<Rightarrow> response \<Rightarrow> response \<Rightarrow> request \<Rightarrow> response" where
  "scripted on_login on_verify on_refresh rq =
     (if url rq = ''http://localhost:8000/api/token/verify/'' then on_verify
      else if url rq = ''http://localhost:8000/api/token/refresh/'' then on_refresh
      else on_login)"

definition flat_dumps :: "json \<Rightarrow> string" where
  "flat_dumps j =
     (case j of
        JObj d \<Rightarrow>
          concat (map (\<lambda>(k, v). k @ ''='' @ (case v of JStr t \<Rightarrow> t | _ \<Rightarrow> ''null'') @ '';'') d)
      | _ \<Rightarrow> ''?'')"

definition stored_pair :: json where
  "stored_pair = JObj [(''access'', JStr ''bad''), (''refresh'', JStr ''r1'')]"

definition flat_loads :: "string \<Rightarrow> json option" where
  "flat_loads t = (if t = ''access=bad;refresh=r1;'' then Some stored_pair else None)"

definition example_env :: "(request \<Rightarrow> response) \<Rightarrow> env" where
  "example_env server =
     \<lparr>json_loads = flat_loads, json_dumps = flat_dumps, py_repr = (\<lambda>j. ''?''),
      http = server, input_line = ''alice'', getpass_line = ''secret''\<rparr>"

text \<open>
  \<open>fresh_client\<close> is \<^verbatim>\<open>JWTClient()\<close> with its default fields where no file exists;
  \<open>stored_client\<close> has the stored file; \<open>loaded_client\<close> has read it;
  \<open>pathless_client\<close> has its path set to \<^verbatim>\<open>None\<close>; \<open>corrupt_client\<close> has a file that
  does not decode.
\<close>

definition fresh_client :: state where
  "fresh_client =
     \<lparr>access = JNull, refresh = JNull, header_type = ''Bearer'',
      base_endpoint = ''http://localhost:8000/api'', cred_path = Some ''creds.json'',
      files = Map.empty, sent = []\<rparr>"

definition stored_client :: state where
  "stored_client = fresh_client\<lparr>files := [''creds.json'' \<mapsto> ''access=bad;refresh=r1;'']\<rparr>"

definition loaded_client :: state where
  "loaded_client = stored_client\<lparr>access := JStr ''bad'', refresh := JStr ''r1''\<rparr>"

definition pathless_client :: state where
  "pathless_client = fresh_client\<lparr>cred_path := None\<rparr>"

definition unauthorized :: response where
  "unauthorized = reply 401 ''denied'' (Some (JObj [(''detail'', JStr ''denied'')]))"

definition not_json :: response where
  "not_json = reply 200 ''<html>'' None"

definition grants :: "(string \<times> json) list \<Rightarrow> response" where
  "grants d = reply 200 (flat_dumps (JObj d)) (Some (JObj d))"

definition full_login_server :: "request \<Rightarrow> response" where
  "full_login_server =
     scripted (grants [(''access'', JStr ''a2''), (''refresh'', JStr ''r2'')])
       unauthorized unauthorized"

definition empty_access_server :: "request \<Rightarrow> response" where
  "empty_access_server = scripted unauthorized unauthorized (grants [(''access'', JStr '''')])"

definition new_access_server :: "request \<Rightarrow> response" where
  "new_access_server = scripted unauthorized unauthorized (grants [(''access'', JStr ''new'')])"

definition html_refresh_server :: "request \<Rightarrow> response" where
  "html_refresh_server = scripted unauthorized unauthorized not_json"

definition denying_server :: "request \<Rightarrow> response" where
  "denying_server = scripted unauthorized unauthorized unauthorized"

definition corrupt_client :: state where
  "corrupt_client = fresh_client\<lparr>files := [''creds.json'' \<mapsto> ''{broken'']\<rparr>"

definition verifying_server :: "request \<Rightarrow> response" where
  "verifying_server = scripted unauthorized (reply 200 ''ok'' (Some (JObj []))) unauthorized"

definition access_only_login_server :: "request \<Rightarrow> response" where
  "access_only_login_server =
     scripted (grants [(''access'', JStr ''a3'')]) unauthorized unauthorized"

definition html_login_server :: "request \<Rightarrow> response" where
  "html_login_server = scripted not_json unauthorized unauthorized"


text \<open>The client after \<^verbatim>\<open>JWTClient()\<close> logged in at a server that grants a full pair.\<close>

definition logged_in_client :: state where
  "logged_in_client = snd (post_init (example_env full_login_server) fresh_client)"

text \<open>
  The logged-in client after \<^verbatim>\<open>write_creds({'refresh': 'r9'})\<close>: the access token is
  \<^verbatim>\<open>None\<close>, the refresh token is \<open>r9\<close>, and the file still holds \<open>a2\<close>, \<open>r2\<close>.
\<close>

definition partly_persisted_client :: state where
  "partly_persisted_client =
     snd (write_creds (example_env full_login_server) (JObj [(''refresh'', JStr ''r9'')])
            logged_in_client)"

lemmas example_defs =
  reply_def scripted_def flat_dumps_def stored_pair_def flat_loads_def example_env_def
  fresh_client_def stored_client_def loaded_client_def pathless_client_def
  unauthorized_def not_json_def grants_def full_login_server_def empty_access_server_def
  new_access_server_def html_refresh_server_def denying_server_def corrupt_client_def
  verifying_server_def access_only_login_server_def html_login_server_def

lemmas method_defs =
  post_init_def perform_auth_def perform_refresh_def verify_token_def clear_tokens_def
  write_creds_def load_creds_def list_api_def list_request_def send_def and_then_def
  done_with_def auth_request_def verify_request_def refresh_request_def get_headers_def
  dict_get_def

section \<open>Facts about the operations\<close>

subsection \<open>Strings\<close>

lemma py_str_JStr: "py_str e (JStr t) = t"
  by simp


lemma py_get_Inr: "py_get j k = Inr v \<Longrightarrow> \<exists>d. j = JObj d"
  by (cases j) simp_all

subsection \<open>Each method on its own\<close>

lemma clear_tokens_path:
  "cred_path s = Some p \<Longrightarrow>
   clear_tokens s =
     (Inr (), s\<lparr>access := JNull, refresh := JNull, files := (files s)(p := None)\<rparr>)"
  by (auto simp: clear_tokens_def Let_def fun_upd_idem)

lemma clear_tokens_no_path:
  "cred_path s = None \<Longrightarrow>
   clear_tokens s = (Inl AttributeError, s\<lparr>access := JNull, refresh := JNull\<rparr>)"
  by (simp add: clear_tokens_def)

lemma write_creds_obj:
  "cred_path s = Some p \<Longrightarrow>
   write_creds e (JObj d) s =
     (Inr (), s\<lparr>access := dict_get d ''access'', refresh := dict_get d ''refresh'',
               files := (if truthy (dict_get d ''access'') \<and> truthy (dict_get d ''refresh'')
                         then (files s)(p \<mapsto> json_dumps e (JObj d)) else files s)\<rparr>)"
  by (simp add: write_creds_def Let_def)

lemma write_creds_no_path: "cred_path s = None \<Longrightarrow> write_creds e data s = (Inr (), s)"
  by (simp add: write_creds_def)

lemma load_creds_obj:
  "load_creds (JObj d) s =
     (Inr (), s\<lparr>access := dict_get d ''access'', refresh := dict_get d ''refresh''\<rparr>)"
  by (simp add: load_creds_def)

lemma verify_token_send:
  "verify_token e s =
     (Inr (status_code (http e (verify_request e s)) = 200),
      s\<lparr>sent := sent s @ [verify_request e s]\<rparr>)"
  by (simp add: verify_token_def send_def)

lemma perform_refresh_when_rejected:
  assumes "cred_path s = Some p" "refresh_rejected (http e (refresh_request e s))"
  shows "perform_refresh e s =
     (Inr False, s\<lparr>access := JNull, refresh := JNull, files := (files s)(p := None),
                  sent := sent s @ [refresh_request e s]\<rparr>)"
  using assms
  by (auto simp: perform_refresh_def send_def refresh_rejected_def and_then_def done_with_def
        clear_tokens_path split: option.splits)

lemma perform_refresh_not_rejected:
  "\<not> refresh_rejected (http e (refresh_request e s)) \<Longrightarrow>
   fst (perform_refresh e s) \<noteq> Inr False"
  by (auto simp: perform_refresh_def send_def refresh_rejected_def and_then_def done_with_def
        split: option.splits sum.splits bool.splits prod.splits)

lemma perform_auth_denied:
  "status_code (http e (auth_request e s)) \<noteq> 200 \<Longrightarrow>
   perform_auth e s =
     (Inl (Exception (''Access not granted: '' @ resp_text (http e (auth_request e s)))),
      s\<lparr>sent := sent s @ [auth_request e s]\<rparr>)"
  by (simp add: perform_auth_def send_def)

lemma perform_auth_granted:
  "status_code (http e (auth_request e s)) = 200 \<Longrightarrow>
   resp_json (http e (auth_request e s)) = Some data \<Longrightarrow>
   perform_auth e s = write_creds e data (s\<lparr>sent := sent s @ [auth_request e s]\<rparr>)"
  by (simp add: perform_auth_def send_def)

subsection \<open>The requests a method sends\<close>

lemma requests_ignore_sent [simp]:
  "verify_request e (s\<lparr>sent := x\<rparr>) = verify_request e s"
  "refresh_request e (s\<lparr>sent := x\<rparr>) = refresh_request e s"
  "auth_request e (s\<lparr>sent := x\<rparr>) = auth_request e s"
  by (simp_all add: verify_request_def refresh_request_def auth_request_def get_headers_def)

lemma auth_request_ignores_tokens [simp]:
  "auth_request e (s\<lparr>access := a\<rparr>) = auth_request e s"
  "auth_request e (s\<lparr>refresh := r\<rparr>) = auth_request e s"
  "auth_request e (s\<lparr>files := f\<rparr>) = auth_request e s"
  by (simp_all add: auth_request_def)

lemma sent_clear_tokens [simp]: "sent (snd (clear_tokens s)) = sent s"
  by (simp add: clear_tokens_def Let_def split: option.splits)

lemma sent_write_creds [simp]: "sent (snd (write_creds e data s)) = sent s"
  by (simp add: write_creds_def Let_def split: option.splits sum.splits)

lemma sent_perform_auth: "sent (snd (perform_auth e s)) = sent s @ [auth_request e s]"
  by (simp add: perform_auth_def send_def split: option.splits)

lemma sent_and_then_const:
  "sent (snd (and_then m (\<lambda>_. done_with x) s)) = sent (snd (m s))"
  by (simp add: and_then_def done_with_def split: prod.splits sum.splits)

lemma sent_perform_refresh: "sent (snd (perform_refresh e s)) = sent s @ [refresh_request e s]"
  by (simp add: perform_refresh_def send_def sent_and_then_const
        split: option.splits sum.splits bool.splits)


subsection \<open>The initializer on a stored file that decodes to a dict\<close>

lemma post_init_stored:
  assumes "cred_path s = Some p" "files s p = Some contents"
    "json_loads e contents = Some (JObj d)"
  shows "post_init e s =
     and_then (verify_token e) (\<lambda>token_verified.
        if \<not> token_verified
        then and_then (perform_refresh e) (\<lambda>refreshed.
               if \<not> refreshed
               then and_then clear_tokens (\<lambda>_. perform_auth e)
               else done_with ())
        else done_with ())
       (s\<lparr>access := dict_get d ''access'', refresh := dict_get d ''refresh''\<rparr>)"
  using assms by (simp add: post_init_def and_then_def load_creds_obj)

subsection \<open>Paired tokens are kept by every method\<close>

lemma tokens_paired_sent [simp]: "tokens_paired (s\<lparr>sent := x\<rparr>) = tokens_paired s"
  by (simp add: tokens_paired_def)

lemma clear_tokens_paired: "tokens_paired (snd (clear_tokens s))"
  by (simp add: clear_tokens_def Let_def tokens_paired_def split: option.splits)

lemma write_creds_paired:
  assumes "paired_creds data" "tokens_paired s"
  shows "tokens_paired (snd (write_creds e data s))"
proof (cases "cred_path s")
  case None
  then show ?thesis using assms by (simp add: write_creds_no_path)
next
  case (Some p)
  show ?thesis
  proof (cases data)
    case (JObj d)
    then show ?thesis using assms(1) Some
      by (auto simp: write_creds_obj tokens_paired_def paired_creds_def)
  qed (use assms Some in \<open>simp_all add: write_creds_def\<close>)
qed

lemma write_creds_establishes:
  assumes "paired_creds data" "cred_path s = Some p" "fst (write_creds e data s) = Inr ()"
  shows "tokens_paired (snd (write_creds e data s))"
proof (cases data)
  case (JObj d)
  then show ?thesis using assms
    by (auto simp: write_creds_obj tokens_paired_def paired_creds_def)
qed (use assms in \<open>simp_all add: write_creds_def\<close>)

lemma verify_token_paired: "tokens_paired s \<Longrightarrow> tokens_paired (snd (verify_token e s))"
  by (simp add: verify_token_send)

lemma list_api_paired: "tokens_paired s \<Longrightarrow> tokens_paired (snd (list_api e endpoint limit s))"
  by (simp add: list_api_def send_def split: option.splits)

lemma perform_auth_paired:
  assumes "feeds paired_creds e" "tokens_paired s"
  shows "tokens_paired (snd (perform_auth e s))"
proof -
  have "\<And>data. resp_json (http e (auth_request e s)) = Some data \<Longrightarrow> paired_creds data"
    using assms(1) by (auto simp: feeds_def)
  then show ?thesis using assms(2)
    by (auto simp: perform_auth_def send_def write_creds_paired split: option.splits)
qed

lemma perform_auth_establishes:
  assumes "feeds paired_creds e" "cred_path s = Some p" "fst (perform_auth e s) = Inr ()"
  shows "tokens_paired (snd (perform_auth e s))"
proof -
  have "\<And>data. resp_json (http e (auth_request e s)) = Some data \<Longrightarrow> paired_creds data"
    using assms(1) by (auto simp: feeds_def)
  then show ?thesis using assms(2,3)
    by (auto simp: perform_auth_def send_def split: option.splits if_splits
          intro!: write_creds_establishes [where p = p])
qed

lemma perform_refresh_paired:
  assumes "feeds paired_creds e" "tokens_paired s"
  shows "tokens_paired (snd (perform_refresh e s))"
proof -
  let ?r = "http e (refresh_request e s)"
  let ?s1 = "s\<lparr>sent := sent s @ [refresh_request e s]\<rparr>"
  have cl: "tokens_paired (snd (and_then clear_tokens (\<lambda>_. done_with False) ?s1))"
    using clear_tokens_paired [of ?s1]
    by (auto simp: and_then_def done_with_def split: prod.splits sum.splits)
  have wr: "tokens_paired
      (snd (and_then (write_creds e (JObj [(''access'', a), (''refresh'', refresh ?s1)]))
             (\<lambda>_. done_with True) ?s1))"
    if j1: "resp_json ?r = Some j" and j2: "py_in ''access'' j = Inr True"
      and j3: "py_get j ''access'' = Inr a" for j a
  proof -
    obtain d where d: "j = JObj d" using j3 py_get_Inr by blast
    have "paired_creds j" using assms(1) j1 by (auto simp: feeds_def)
    then have "a \<noteq> JNull" using j2 j3 d by (auto simp: paired_creds_def)
    then have "paired_creds (JObj [(''access'', a), (''refresh'', refresh ?s1)])"
      by (simp add: paired_creds_def dict_get_def)
    then have "tokens_paired
        (snd (write_creds e (JObj [(''access'', a), (''refresh'', refresh ?s1)]) ?s1))"
      using assms(2) by (intro write_creds_paired) simp_all
    then show ?thesis
      by (auto simp: and_then_def done_with_def split: prod.splits sum.splits)
  qed
  show ?thesis
    using cl wr assms(2)
    by (auto simp: perform_refresh_def send_def split: option.splits sum.splits bool.splits)
qed

lemma and_then_paired:
  assumes "tokens_paired s" "\<And>s. tokens_paired s \<Longrightarrow> tokens_paired (snd (m s))"
    "\<And>x s. tokens_paired s \<Longrightarrow> tokens_paired (snd (f x s))"
  shows "tokens_paired (snd (and_then m f s))"
proof (cases "m s")
  case (Pair res s')
  then have "tokens_paired s'" using assms(1,2) by (metis snd_conv)
  then show ?thesis using Pair assms(3) by (cases res) (simp_all add: and_then_def)
qed

lemma clear_then_auth_paired:
  "feeds paired_creds e \<Longrightarrow>
   tokens_paired (snd (and_then clear_tokens (\<lambda>_. perform_auth e) s))"
  using clear_tokens_paired [of s] perform_auth_paired [of e]
  by (auto simp: and_then_def split: prod.splits sum.splits)

lemma fallback_paired:
  assumes "feeds paired_creds e" "tokens_paired s"
  shows "tokens_paired
     (snd (and_then (verify_token e) (\<lambda>token_verified.
        if \<not> token_verified
        then and_then (perform_refresh e) (\<lambda>refreshed.
               if \<not> refreshed
               then and_then clear_tokens (\<lambda>_. perform_auth e)
               else done_with ())
        else done_with ()) s))"
  using assms(2)
proof (rule and_then_paired)
  fix s' assume "tokens_paired s'"
  then show "tokens_paired (snd (verify_token e s'))" by (rule verify_token_paired)
next
  fix ok s' assume p: "tokens_paired s'"
  have "tokens_paired (snd (and_then (perform_refresh e) (\<lambda>refreshed.
               if \<not> refreshed
               then and_then clear_tokens (\<lambda>_. perform_auth e)
               else done_with ()) s'))"
    using p
  proof (rule and_then_paired)
    fix s'' assume "tokens_paired s''"
    then show "tokens_paired (snd (perform_refresh e s''))"
      using assms(1) by (intro perform_refresh_paired)
  next
    fix b s'' assume "tokens_paired s''"
    then show "tokens_paired (snd ((if \<not> b then and_then clear_tokens (\<lambda>_. perform_auth e)
               else done_with ()) s''))"
      using clear_then_auth_paired [OF assms(1)] by (simp add: done_with_def)
  qed
  then show "tokens_paired (snd ((if \<not> ok
        then and_then (perform_refresh e) (\<lambda>refreshed.
               if \<not> refreshed
               then and_then clear_tokens (\<lambda>_. perform_auth e)
               else done_with ())
        else done_with ()) s'))"
    using p by (simp add: done_with_def)
qed

lemma post_init_paired:
  assumes "feeds paired_creds e" "post_init e s0 = (Inr (), s)"
  shows "tokens_paired s"
proof (cases "cred_path s0")
  case None
  then show ?thesis using assms(2) by (simp add: post_init_def)
next
  case (Some p)
  show ?thesis
  proof (cases "files s0 p")
    case None
    then have "perform_auth e s0 = (Inr (), s)" using assms(2) Some by (simp add: post_init_def)
    then show ?thesis
      using perform_auth_establishes [OF assms(1) Some] by (metis fst_conv snd_conv)
  next
    case (Some contents)
    define data where "data = (case json_loads e contents of None \<Rightarrow> JNull | Some d \<Rightarrow> d)"
    show ?thesis
    proof (cases "data = JNull")
      case True
      then have "post_init e s0 = and_then clear_tokens (\<lambda>_. perform_auth e) s0"
        using \<open>cred_path s0 = Some p\<close> Some by (simp add: post_init_def data_def)
      then have "and_then clear_tokens (\<lambda>_. perform_auth e) s0 = (Inr (), s)"
        using assms(2) by simp
      then show ?thesis using clear_then_auth_paired [OF assms(1), of s0] by simp
    next
      case False
      have pd: "paired_creds data"
        using assms(1) by (auto simp: data_def feeds_def paired_creds_def split: option.splits)
      have eq: "post_init e s0 =
          and_then (load_creds data) (\<lambda>_.
          and_then (verify_token e) (\<lambda>token_verified.
            if \<not> token_verified
            then and_then (perform_refresh e) (\<lambda>refreshed.
                   if \<not> refreshed
                   then and_then clear_tokens (\<lambda>_. perform_auth e)
                   else done_with ())
            else done_with ())) s0"
        using \<open>cred_path s0 = Some p\<close> Some False by (simp add: post_init_def data_def Let_def)
      show ?thesis
      proof (cases data)
        case (JObj d)
        have "tokens_paired
            (s0\<lparr>access := dict_get d ''access'', refresh := dict_get d ''refresh''\<rparr>)"
          using pd JObj by (auto simp: paired_creds_def tokens_paired_def)
        from fallback_paired [OF assms(1) this] show ?thesis
          using assms(2)
          by (simp add: eq JObj and_then_def [of "load_creds (JObj d)"] load_creds_obj)
      qed (use assms(2) in \<open>simp_all add: eq and_then_def load_creds_def\<close>)
    qed
  qed
qed

lemma reachable_tokens_paired: "reachable paired_creds s \<Longrightarrow> tokens_paired s"
proof (induction rule: reachable.induct)
  case (by_init e s0 s)
  then show ?case by (rule post_init_paired)
next
  case (by_login s e)
  then show ?case by (intro perform_auth_paired)
next
  case (by_verify s e)
  then show ?case by (intro verify_token_paired)
next
  case (by_refresh s e)
  then show ?case by (intro perform_refresh_paired)
next
  case (by_persist s data e)
  then show ?case by (intro write_creds_paired)
next
  case (by_clear s)
  then show ?case by (intro clear_tokens_paired)
next
  case (by_list s e endpoint limit)
  then show ?case by (intro list_api_paired)
qed

subsection \<open>Every reachable client has a persistence path\<close>

lemma cred_path_clear_tokens [simp]: "cred_path (snd (clear_tokens s)) = cred_path s"
  by (simp add: clear_tokens_def Let_def split: option.splits)

lemma cred_path_write_creds [simp]: "cred_path (snd (write_creds e data s)) = cred_path s"
  by (simp add: write_creds_def Let_def split: option.splits sum.splits)

lemma cred_path_verify_token [simp]: "cred_path (snd (verify_token e s)) = cred_path s"
  by (simp add: verify_token_send)

lemma cred_path_list_api [simp]: "cred_path (snd (list_api e endpoint limit s)) = cred_path s"
  by (simp add: list_api_def send_def split: option.splits)

lemma cred_path_perform_auth [simp]: "cred_path (snd (perform_auth e s)) = cred_path s"
  by (simp add: perform_auth_def send_def split: option.splits)

lemma cred_path_and_then:
  assumes "\<And>s. cred_path (snd (m s)) = cred_path s"
    "\<And>x s. cred_path (snd (f x s)) = cred_path s"
  shows "cred_path (snd (and_then m f s)) = cred_path s"
proof (cases "m s")
  case (Pair res s')
  then have "cred_path s' = cred_path s" using assms(1) [of s] by simp
  then show ?thesis using Pair assms(2) by (cases res) (simp_all add: and_then_def)
qed

lemma cred_path_perform_refresh [simp]: "cred_path (snd (perform_refresh e s)) = cred_path s"
  by (simp add: perform_refresh_def send_def cred_path_and_then done_with_def
        split: option.splits sum.splits bool.splits)

lemma post_init_has_path: "post_init e s0 = (Inr (), s) \<Longrightarrow> cred_path s0 \<noteq> None"
  by (cases "cred_path s0") (simp_all add: post_init_def)

lemma cred_path_load_creds [simp]: "cred_path (snd (load_creds data s)) = cred_path s"
  by (simp add: load_creds_def Let_def split: sum.splits)

lemma cred_path_post_init: "cred_path (snd (post_init e s)) = cred_path s"
  by (simp add: post_init_def Let_def cred_path_and_then done_with_def
        split: option.splits)

lemma reachable_has_path: "reachable P s \<Longrightarrow> \<exists>p. cred_path s = Some p"
proof (induction rule: reachable.induct)
  case (by_init e s0 s)
  then have "cred_path s0 \<noteq> None" by (intro post_init_has_path)
  moreover have "cred_path s = cred_path s0"
    using cred_path_post_init [of e s0] by_init(2) by simp
  ultimately show ?case by auto
qed simp_all

subsection \<open>Runs of the examples\<close>

lemma feeds_any_json: "feeds any_json e"
  by (simp add: feeds_def any_json_def)

lemma feeds_full_login: "feeds paired_creds (example_env full_login_server)"
  by (auto simp: feeds_def paired_creds_def dict_get_def example_defs split: if_splits)

lemma post_init_full_login:
  "post_init (example_env full_login_server) fresh_client =
     (Inr (), fresh_client\<lparr>access := JStr ''a2'', refresh := JStr ''r2'',
        files := [''creds.json'' \<mapsto> ''access=a2;refresh=r2;''],
        sent := [auth_request (example_env full_login_server) fresh_client]\<rparr>)"
  by (simp add: method_defs example_defs)

lemma logged_in_client_eq:
  "logged_in_client =
     fresh_client\<lparr>access := JStr ''a2'', refresh := JStr ''r2'',
        files := [''creds.json'' \<mapsto> ''access=a2;refresh=r2;''],
        sent := [auth_request (example_env full_login_server) fresh_client]\<rparr>"
  by (simp add: logged_in_client_def post_init_full_login)

lemma reachable_logged_in: "feeds P (example_env full_login_server) \<Longrightarrow> reachable P logged_in_client"
  unfolding logged_in_client_eq by (rule by_init [OF _ post_init_full_login])

lemma partly_persisted_client_eq:
  "partly_persisted_client = logged_in_client\<lparr>access := JNull, refresh := JStr ''r9''\<rparr>"
proof -
  have "cred_path logged_in_client = Some ''creds.json''"
    by (simp add: logged_in_client_eq fresh_client_def)
  then show ?thesis
    by (simp add: partly_persisted_client_def write_creds_obj dict_get_def)
qed

lemma reachable_partly_persisted: "reachable any_json partly_persisted_client"
  unfolding partly_persisted_client_def
  by (intro by_persist reachable_logged_in feeds_any_json) (simp add: any_json_def)

section \<open>The claims\<close>

subsection \<open>C1: the tokens as a pair\<close>

text \<open>
  Claim C1, as amended. In every state the client reaches through its initializer and
  its methods (login, verify, refresh, persist, clear, list), a missing access token
  comes with a missing refresh token, provided that no credential mapping the client
  takes in (the decoded file, a decoded response body, a mapping passed to
  \<^verbatim>\<open>write_creds\<close>) is a dict with an \<open>access\<close> of \<^verbatim>\<open>None\<close> next to a \<open>refresh\<close>, or with an
  \<open>access\<close> key whose value is \<^verbatim>\<open>None\<close>.
\<close>

theorem reachable_access_absent_refresh_absent:
  "reachable paired_creds s \<Longrightarrow> access s = JNull \<Longrightarrow> refresh s = JNull"
  using reachable_tokens_paired [of s] by (simp add: tokens_paired_def)

text \<open>
  An instance: the client logs in with a full pair and then clears its tokens. The state
  is reachable and its access token is missing, so its refresh token is missing.
\<close>

theorem reachable_access_absent_refresh_absent_witness:
  "reachable paired_creds (snd (clear_tokens logged_in_client)) \<and>
   access (snd (clear_tokens logged_in_client)) = JNull \<and>
   refresh (snd (clear_tokens logged_in_client)) = JNull"
proof -
  have r: "reachable paired_creds (snd (clear_tokens logged_in_client))"
    by (intro by_clear reachable_logged_in feeds_full_login)
  have a: "access (snd (clear_tokens logged_in_client)) = JNull"
    by (simp add: clear_tokens_def Let_def split: option.splits)
  from reachable_access_absent_refresh_absent [OF r a] r a show ?thesis by simp
qed

text \<open>
  Without the proviso the claim fails. The client logs in with a full pair; then
  \<^verbatim>\<open>write_creds({'refresh': 'r9'})\<close> sets the access token to \<^verbatim>\<open>None\<close> and the refresh
  token to \<open>r9\<close>.
\<close>

theorem partial_persist_breaks_pairing:
  "reachable any_json partly_persisted_client \<and>
   access partly_persisted_client = JNull \<and>
   refresh partly_persisted_client = JStr ''r9''"
  using reachable_partly_persisted by (simp add: partly_persisted_client_eq)

subsection \<open>C2: a refresh that succeeds\<close>

text \<open>
  Claim C2, as amended. For a client with a persistence path, when the refresh request
  gets a 200 response whose body decodes to a dict with an \<open>access\<close> key,
  \<^verbatim>\<open>perform_refresh\<close> returns true, the refresh token in memory is the one held before,
  and the access token in memory is the value of the response. The file is rewritten,
  with the new access token and the refresh token held before, when both are non-empty;
  otherwise the file is left as it was.
\<close>

theorem perform_refresh_keeps_refresh_token:
  assumes "cred_path s = Some p"
    and "status_code (http e (refresh_request e s)) = 200"
    and "resp_json (http e (refresh_request e s)) = Some (JObj d)"
    and "map_of d ''access'' = Some a"
  shows "perform_refresh e s =
     (Inr True,
      s\<lparr>access := a,
        files := (if truthy a \<and> truthy (refresh s)
                  then (files s)(p \<mapsto>
                         json_dumps e (JObj [(''access'', a), (''refresh'', refresh s)]))
                  else files s),
        sent := sent s @ [refresh_request e s]\<rparr>)"
  using assms
  by (simp add: perform_refresh_def send_def and_then_def done_with_def
        write_creds_obj dict_get_def)

text \<open>
  An instance, the scenario of a stored pair \<open>bad\<close>, \<open>r1\<close> and a refresh response with the
  access token \<open>new\<close>: the file then holds \<open>new\<close> and \<open>r1\<close>.
\<close>

theorem perform_refresh_keeps_refresh_token_witness:
  "perform_refresh (example_env new_access_server) loaded_client =
     (Inr True,
      loaded_client\<lparr>access := JStr ''new'',
        files := [''creds.json'' \<mapsto> ''access=new;refresh=r1;''],
        sent := [refresh_request (example_env new_access_server) loaded_client]\<rparr>)"
proof -
  have r: "http (example_env new_access_server)
             (refresh_request (example_env new_access_server) loaded_client) =
           grants [(''access'', JStr ''new'')]"
    by (simp add: refresh_request_def example_defs)
  have "perform_refresh (example_env new_access_server) loaded_client =
     (Inr True,
      loaded_client\<lparr>access := JStr ''new'',
        files := (if truthy (JStr ''new'') \<and> truthy (refresh loaded_client)
                  then (files loaded_client)(''creds.json'' \<mapsto>
                         json_dumps (example_env new_access_server)
                           (JObj [(''access'', JStr ''new''), (''refresh'', refresh loaded_client)]))
                  else files loaded_client),
        sent := sent loaded_client @
                  [refresh_request (example_env new_access_server) loaded_client]\<rparr>)"
    by (rule perform_refresh_keeps_refresh_token [where d = "[(''access'', JStr ''new'')]"])
       (simp_all add: r, simp_all add: example_defs)
  then show ?thesis by (simp add: example_defs)
qed

text \<open>
  The claim as stated fails where the new access token is empty. The client, after a
  login and \<^verbatim>\<open>write_creds({'refresh': 'r9'})\<close>, holds the refresh token \<open>r9\<close> while the
  file holds \<open>a2\<close>, \<open>r2\<close>; the refresh response is a 200 with an empty \<open>access\<close>.
  \<^verbatim>\<open>perform_refresh\<close> returns true and writes nothing: the refresh token in the file is
  \<open>r2\<close>, not \<open>r9\<close>.
\<close>

theorem perform_refresh_empty_access_not_persisted:
  "reachable any_json partly_persisted_client \<and>
   refresh partly_persisted_client = JStr ''r9'' \<and>
   fst (perform_refresh (example_env empty_access_server) partly_persisted_client) = Inr True \<and>
   access (snd (perform_refresh (example_env empty_access_server) partly_persisted_client))
     = JStr '''' \<and>
   files (snd (perform_refresh (example_env empty_access_server) partly_persisted_client))
     = [''creds.json'' \<mapsto> ''access=a2;refresh=r2;'']"
  using reachable_partly_persisted
  by (simp add: partly_persisted_client_eq logged_in_client_eq, simp add: method_defs example_defs)

subsection \<open>C3: verification\<close>

text \<open>
  Claim C3. Whatever response the verify request gets, \<^verbatim>\<open>verify_token\<close> returns, with no
  exception, and what it returns is true exactly when the status is 200. It changes
  nothing but the record of requests sent.
\<close>

theorem verify_token_true_iff_200:
  "fst (verify_token e s) = Inr (status_code (http e (verify_request e s)) = 200) \<and>
   snd (verify_token e s) = s\<lparr>sent := sent s @ [verify_request e s]\<rparr>"
  by (simp add: verify_token_send)

subsection \<open>C4: a refresh that is refused\<close>

text \<open>
  Claim C4, as amended. For a client with a persistence path, when the refresh request
  gets a response with a status other than 200, or a 200 response whose body decodes to
  a container (a dict, or a list or str) that does not contain \<open>access\<close>,
  \<^verbatim>\<open>perform_refresh\<close> sets both tokens to \<^verbatim>\<open>None\<close>, removes the file if it exists, and
  returns false.
\<close>

theorem perform_refresh_failure_clears:
  assumes "cred_path s = Some p"
    and "status_code (http e (refresh_request e s)) \<noteq> 200 \<or>
         (resp_json (http e (refresh_request e s)) = Some j \<and> py_in ''access'' j = Inr False)"
  shows "perform_refresh e s =
     (Inr False,
      s\<lparr>access := JNull, refresh := JNull, files := (files s)(p := None),
        sent := sent s @ [refresh_request e s]\<rparr>)"
proof -
  have "refresh_rejected (http e (refresh_request e s))"
    using assms(2) by (auto simp: refresh_rejected_def)
  with assms(1) show ?thesis by (rule perform_refresh_when_rejected)
qed

text \<open>An instance: the refresh request gets a 401.\<close>

theorem perform_refresh_failure_clears_witness:
  "perform_refresh (example_env denying_server) loaded_client =
     (Inr False,
      loaded_client\<lparr>access := JNull, refresh := JNull, files := Map.empty,
        sent := [refresh_request (example_env denying_server) loaded_client]\<rparr>)"
proof -
  have r: "status_code (http (example_env denying_server)
             (refresh_request (example_env denying_server) loaded_client)) \<noteq> 200 \<or>
           (resp_json (http (example_env denying_server)
             (refresh_request (example_env denying_server) loaded_client)) = Some JNull \<and>
            py_in ''access'' JNull = Inr False)"
    by (simp add: refresh_request_def example_defs)
  have p: "cred_path loaded_client = Some ''creds.json''" by (simp add: example_defs)
  from perform_refresh_failure_clears [OF p r] show ?thesis by (simp add: example_defs)
qed

text \<open>
  The claim as stated fails on a 200 response whose body is no JSON: the body has no
  \<open>access\<close> field, and \<^verbatim>\<open>perform_refresh\<close> raises at \<^verbatim>\<open>r.json()\<close>; both tokens and the
  file stay.
\<close>

theorem perform_refresh_undecodable_body_raises:
  "fst (perform_refresh (example_env html_refresh_server) loaded_client) = Inl JSONDecodeError \<and>
   access (snd (perform_refresh (example_env html_refresh_server) loaded_client)) = JStr ''bad'' \<and>
   refresh (snd (perform_refresh (example_env html_refresh_server) loaded_client)) = JStr ''r1'' \<and>
   files (snd (perform_refresh (example_env html_refresh_server) loaded_client)) ''creds.json''
     = Some ''access=bad;refresh=r1;''"
  by (simp add: method_defs example_defs)

subsection \<open>C5: when the file is written\<close>

text \<open>
  Claim C5. For every mapping passed to \<^verbatim>\<open>write_creds\<close>, the file at the persistence
  path is written, with the whole mapping, only when the access and the refresh token
  are both non-empty after the update in memory; in every other case (a token empty or
  \<^verbatim>\<open>None\<close>, or no path) every file is left exactly as it was.
\<close>

theorem write_creds_writes_only_full_pair:
  "files (snd (write_creds e (JObj d) s)) =
     (case cred_path s of
        None \<Rightarrow> files s
      | Some p \<Rightarrow>
          if truthy (access (snd (write_creds e (JObj d) s))) \<and>
             truthy (refresh (snd (write_creds e (JObj d) s)))
          then (files s)(p \<mapsto> json_dumps e (JObj d))
          else files s)"
  by (simp add: write_creds_obj write_creds_no_path split: option.splits)

text \<open>
  Two runs: a mapping with an empty refresh token leaves the stored file alone; a full
  mapping replaces it.
\<close>

theorem write_creds_writes_only_full_pair_witness:
  "files (snd (write_creds (example_env denying_server)
                 (JObj [(''access'', JStr ''a3''), (''refresh'', JStr '''')]) loaded_client))
     = [''creds.json'' \<mapsto> ''access=bad;refresh=r1;''] \<and>
   files (snd (write_creds (example_env denying_server)
                 (JObj [(''access'', JStr ''a3''), (''refresh'', JStr ''r3'')]) loaded_client))
     = [''creds.json'' \<mapsto> ''access=a3;refresh=r3;'']"
proof -
  have p: "cred_path loaded_client = Some ''creds.json''" by (simp add: example_defs)
  show ?thesis
    unfolding write_creds_writes_only_full_pair
    by (simp add: p write_creds_obj dict_get_def, simp add: example_defs)
qed

subsection \<open>C6: the authorization header\<close>

text \<open>
  Claim C6, as amended. \<^verbatim>\<open>get_headers\<close> returns the empty mapping when the access token
  is \<^verbatim>\<open>None\<close> or empty, and otherwise the one entry \<open>Authorization\<close> with the scheme, a
  space and the access token. The scheme is the argument when one is given and is not
  empty; with no argument, or an empty one, it is the configured \<open>header_type\<close>.
\<close>

theorem get_headers_value:
  "get_headers e scheme s =
     (if \<not> truthy (access s) then []
      else [(''Authorization'',
             (case scheme of
                None \<Rightarrow> header_type s
              | Some h \<Rightarrow> if h = [] then header_type s else h)
             @ '' '' @ py_str e (access s))])"
  by (simp add: get_headers_def Let_def split: option.splits)

text \<open>Runs: no token, the configured scheme, a scheme given.\<close>

theorem get_headers_value_witness:
  "get_headers (example_env denying_server) None fresh_client = [] \<and>
   get_headers (example_env denying_server) None loaded_client
     = [(''Authorization'', ''Bearer bad'')] \<and>
   get_headers (example_env denying_server) (Some ''JWT'') loaded_client
     = [(''Authorization'', ''JWT bad'')]"
  unfolding get_headers_value by (simp add: example_defs)

text \<open>
  The claim as stated fails for the empty scheme: given \<^verbatim>\<open>header_type=""\<close>, the header
  carries the configured scheme \<open>Bearer\<close>, not the empty one.
\<close>

theorem get_headers_empty_scheme_falls_back:
  "get_headers (example_env denying_server) (Some '''') loaded_client
     = [(''Authorization'', ''Bearer bad'')] \<and>
   get_headers (example_env denying_server) (Some '''') loaded_client
     \<noteq> [(''Authorization'', '''' @ '' '' @ ''bad'')]"
  by (simp add: get_headers_def example_defs)

subsection \<open>C7: the initializer falls back to the login\<close>

text \<open>
  Claim C7, as amended. Let the persisted file exist and decode to a dict, on a client
  with a persistence path. The initializer sends the verify request; if the answer is
  not 200 it sends the refresh request; and it sends the login request, once, exactly
  when the verify answer is not 200 and the refresh answer is a refusal (a status other
  than 200, or a 200 whose decoded body is a container without \<open>access\<close>). In that case
  the login runs from a state with both tokens \<^verbatim>\<open>None\<close> and the file removed. Where the
  verify or the refresh request succeeds, no login request is sent.
\<close>

theorem post_init_login_only_after_both_fail:
  assumes "cred_path s = Some p" "files s p = Some contents"
    "json_loads e contents = Some (JObj d)"
  defines "s1 \<equiv> s\<lparr>access := dict_get d ''access'', refresh := dict_get d ''refresh''\<rparr>"
  shows "sent (snd (post_init e s)) =
           sent s @
           (if status_code (http e (verify_request e s1)) = 200 then [verify_request e s1]
            else if refresh_rejected (http e (refresh_request e s1))
                 then [verify_request e s1, refresh_request e s1, auth_request e s]
                 else [verify_request e s1, refresh_request e s1]) \<and>
         (status_code (http e (verify_request e s1)) \<noteq> 200 \<and>
          refresh_rejected (http e (refresh_request e s1)) \<longrightarrow>
          post_init e s =
            perform_auth e
              (s\<lparr>access := JNull, refresh := JNull, files := (files s)(p := None),
                 sent := sent s @ [verify_request e s1, refresh_request e s1]\<rparr>))"
proof -
  let ?v = "verify_request e s1" and ?r = "refresh_request e s1"
  let ?s2 = "s1\<lparr>sent := sent s @ [?v]\<rparr>"
  have s1_fields [simp]: "cred_path s1 = Some p" "files s1 = files s" "sent s1 = sent s"
    by (simp_all add: s1_def assms)
  have path2: "cred_path ?s2 = Some p" by simp
  have start: "post_init e s =
     and_then (verify_token e) (\<lambda>token_verified.
        if \<not> token_verified
        then and_then (perform_refresh e) (\<lambda>refreshed.
               if \<not> refreshed
               then and_then clear_tokens (\<lambda>_. perform_auth e)
               else done_with ())
        else done_with ()) s1"
    unfolding s1_def using assms(1-3) by (rule post_init_stored)
  have ver: "verify_token e s1 = (Inr (status_code (http e ?v) = 200), ?s2)"
    by (simp add: verify_token_send)
  show ?thesis
  proof (cases "status_code (http e ?v) = 200")
    case True
    then show ?thesis by (simp add: start and_then_def ver done_with_def)
  next
    case not200: False
    have cont: "post_init e s =
        and_then (perform_refresh e) (\<lambda>refreshed.
               if \<not> refreshed
               then and_then clear_tokens (\<lambda>_. perform_auth e)
               else done_with ()) ?s2"
      using not200 by (simp add: start and_then_def ver)
    show ?thesis
    proof (cases "refresh_rejected (http e ?r)")
      case True
      have rej: "perform_refresh e ?s2 =
          (Inr False, ?s2\<lparr>access := JNull, refresh := JNull, files := (files ?s2)(p := None),
                  sent := sent ?s2 @ [refresh_request e ?s2]\<rparr>)"
        using path2 True by (intro perform_refresh_when_rejected) simp_all
      have "post_init e s =
            perform_auth e
              (s1\<lparr>sent := sent s @ [?v, ?r], access := JNull, refresh := JNull,
                  files := (files s)(p := None)\<rparr>)"
        by (simp add: cont and_then_def rej clear_tokens_path [where p = p])
      also have "s1\<lparr>sent := sent s @ [?v, ?r], access := JNull, refresh := JNull,
                  files := (files s)(p := None)\<rparr> =
                 s\<lparr>access := JNull, refresh := JNull, files := (files s)(p := None),
                  sent := sent s @ [?v, ?r]\<rparr>"
        by (simp add: s1_def)
      finally have "post_init e s =
            perform_auth e
              (s\<lparr>access := JNull, refresh := JNull, files := (files s)(p := None),
                 sent := sent s @ [?v, ?r]\<rparr>)" .
      then show ?thesis using not200 True by (simp add: sent_perform_auth)
    next
      case False
      then have ne: "fst (perform_refresh e ?s2) \<noteq> Inr False"
        by (intro perform_refresh_not_rejected) simp
      have tr: "sent (snd (perform_refresh e ?s2)) = sent s @ [?v, ?r]"
        by (simp add: sent_perform_refresh)
      obtain res s3 where ps: "perform_refresh e ?s2 = (res, s3)"
        by (cases "perform_refresh e ?s2")
      have "sent (snd (post_init e s)) = sent s3"
        using ne ps by (cases res) (auto simp: cont and_then_def done_with_def)
      then show ?thesis using not200 False tr ps by simp
    qed
  qed
qed

text \<open>
  An instance: the stored pair \<open>bad\<close>, \<open>r1\<close>, a 401 to the verify and to the refresh
  request. Three requests are sent, the last one the login, which starts from the
  cleared client.
\<close>

theorem post_init_login_only_after_both_fail_witness:
  "sent (snd (post_init (example_env full_login_server) stored_client)) =
     [verify_request (example_env full_login_server) loaded_client,
      refresh_request (example_env full_login_server) loaded_client,
      auth_request (example_env full_login_server) stored_client] \<and>
   post_init (example_env full_login_server) stored_client =
     perform_auth (example_env full_login_server)
       (stored_client\<lparr>access := JNull, refresh := JNull, files := Map.empty,
          sent := [verify_request (example_env full_login_server) loaded_client,
                   refresh_request (example_env full_login_server) loaded_client]\<rparr>)"
proof -
  let ?e = "example_env full_login_server"
  have l: "stored_client\<lparr>access := dict_get [(''access'', JStr ''bad''), (''refresh'', JStr ''r1'')] ''access'',
             refresh := dict_get [(''access'', JStr ''bad''), (''refresh'', JStr ''r1'')] ''refresh''\<rparr>
           = loaded_client"
    by (simp add: loaded_client_def dict_get_def)
  have v: "status_code (http ?e (verify_request ?e loaded_client)) \<noteq> 200"
    by (simp add: verify_request_def example_defs)
  have r: "refresh_rejected (http ?e (refresh_request ?e loaded_client))"
    by (simp add: refresh_rejected_def refresh_request_def example_defs)
  have h: "cred_path stored_client = Some ''creds.json''"
    "files stored_client ''creds.json'' = Some ''access=bad;refresh=r1;''"
    "json_loads ?e ''access=bad;refresh=r1;'' =
       Some (JObj [(''access'', JStr ''bad''), (''refresh'', JStr ''r1'')])"
    by (simp_all add: example_defs)
  have f: "(files stored_client)(''creds.json'' := None) = Map.empty"
    by (simp add: example_defs)
  have n: "sent stored_client = []" by (simp add: example_defs)
  note both = post_init_login_only_after_both_fail [OF h, unfolded l]
  from both [THEN conjunct1] v r
  have trace: "sent (snd (post_init ?e stored_client)) =
     [verify_request ?e loaded_client, refresh_request ?e loaded_client,
      auth_request ?e stored_client]"
    by (simp add: n)
  from both [THEN conjunct2] v r
  have login: "post_init ?e stored_client =
     perform_auth ?e
       (stored_client\<lparr>access := JNull, refresh := JNull, files := Map.empty,
          sent := [verify_request ?e loaded_client, refresh_request ?e loaded_client]\<rparr>)"
    by (simp add: f n)
  from trace login show ?thesis by (rule conjI)
qed

text \<open>
  The claim as stated fails where the refresh answer is a 200 whose body is no JSON: it
  has no \<open>access\<close> field, and the initializer raises at \<^verbatim>\<open>r.json()\<close>; the tokens and
  the file stay, and no login request is sent.
\<close>

theorem post_init_undecodable_refresh_raises:
  "fst (post_init (example_env html_refresh_server) stored_client) = Inl JSONDecodeError \<and>
   access (snd (post_init (example_env html_refresh_server) stored_client)) = JStr ''bad'' \<and>
   refresh (snd (post_init (example_env html_refresh_server) stored_client)) = JStr ''r1'' \<and>
   files (snd (post_init (example_env html_refresh_server) stored_client)) ''creds.json''
     = Some ''access=bad;refresh=r1;'' \<and>
   sent (snd (post_init (example_env html_refresh_server) stored_client)) =
     [verify_request (example_env html_refresh_server) loaded_client,
      refresh_request (example_env html_refresh_server) loaded_client]"
  by (simp add: method_defs example_defs)

subsection \<open>C8: the login\<close>

text \<open>
  Claim C8, as amended. When the login request gets a status other than 200,
  \<^verbatim>\<open>perform_auth\<close> raises an exception whose message is \<open>Access not granted: \<close> followed
  by the body of the response, and changes neither the tokens nor any file. When it
  gets a 200, on a client with a persistence path: a body that does not decode makes it
  raise at \<^verbatim>\<open>r.json()\<close>, and a body that decodes to something other than a dict makes it
  raise at \<^verbatim>\<open>data.get\<close>, the tokens and the files staying as they were; a body that
  decodes to a dict makes it return with the tokens set to the \<open>access\<close> and \<open>refresh\<close>
  entries of the body (\<^verbatim>\<open>None\<close> for a missing key), and the body is written to the file
  exactly when both are non-empty. The exception is Python's \<^verbatim>\<open>Exception\<close>; the program
  has no class of its own for it.
\<close>

theorem perform_auth_outcome:
  "(status_code (http e (auth_request e s)) \<noteq> 200 \<longrightarrow>
      perform_auth e s =
        (Inl (Exception (''Access not granted: '' @ resp_text (http e (auth_request e s)))),
         s\<lparr>sent := sent s @ [auth_request e s]\<rparr>)) \<and>
   (status_code (http e (auth_request e s)) = 200 \<and> cred_path s = Some p \<longrightarrow>
      perform_auth e s =
        (case resp_json (http e (auth_request e s)) of
           None \<Rightarrow> (Inl JSONDecodeError, s\<lparr>sent := sent s @ [auth_request e s]\<rparr>)
         | Some data \<Rightarrow>
             (case data of
                JObj d \<Rightarrow>
                  (Inr (),
                   s\<lparr>access := dict_get d ''access'', refresh := dict_get d ''refresh'',
                     files := (if truthy (dict_get d ''access'') \<and>
                                  truthy (dict_get d ''refresh'')
                               then (files s)(p \<mapsto> json_dumps e (JObj d)) else files s),
                     sent := sent s @ [auth_request e s]\<rparr>)
              | _ \<Rightarrow> (Inl AttributeError, s\<lparr>sent := sent s @ [auth_request e s]\<rparr>))))"
proof (intro conjI impI)
  assume "status_code (http e (auth_request e s)) \<noteq> 200"
  then show "perform_auth e s =
        (Inl (Exception (''Access not granted: '' @ resp_text (http e (auth_request e s)))),
         s\<lparr>sent := sent s @ [auth_request e s]\<rparr>)"
    by (rule perform_auth_denied)
next
  let ?s1 = "s\<lparr>sent := sent s @ [auth_request e s]\<rparr>"
  assume h: "status_code (http e (auth_request e s)) = 200 \<and> cred_path s = Some p"
  then have p1: "cred_path ?s1 = Some p" by simp
  show "perform_auth e s =
        (case resp_json (http e (auth_request e s)) of
           None \<Rightarrow> (Inl JSONDecodeError, ?s1)
         | Some data \<Rightarrow>
             (case data of
                JObj d \<Rightarrow>
                  (Inr (),
                   s\<lparr>access := dict_get d ''access'', refresh := dict_get d ''refresh'',
                     files := (if truthy (dict_get d ''access'') \<and>
                                  truthy (dict_get d ''refresh'')
                               then (files s)(p \<mapsto> json_dumps e (JObj d)) else files s),
                     sent := sent s @ [auth_request e s]\<rparr>)
              | _ \<Rightarrow> (Inl AttributeError, ?s1)))"
  proof (cases "resp_json (http e (auth_request e s))")
    case None
    then show ?thesis using h by (simp add: perform_auth_def send_def)
  next
    case (Some data)
    then have w: "perform_auth e s = write_creds e data ?s1"
      using h by (simp add: perform_auth_granted)
    show ?thesis
    proof (cases data)
      case (JObj d)
      then show ?thesis using Some w by (simp add: write_creds_obj [OF p1])
    qed (use Some w h in \<open>simp_all add: write_creds_def\<close>)
  qed
qed

text \<open>Two runs from the fresh client: a 401, and a 200 with a full pair.\<close>

theorem perform_auth_outcome_witness:
  "perform_auth (example_env denying_server) fresh_client =
     (Inl (Exception ''Access not granted: denied''),
      fresh_client\<lparr>sent := [auth_request (example_env denying_server) fresh_client]\<rparr>) \<and>
   perform_auth (example_env full_login_server) fresh_client =
     (Inr (),
      fresh_client\<lparr>access := JStr ''a2'', refresh := JStr ''r2'',
        files := [''creds.json'' \<mapsto> ''access=a2;refresh=r2;''],
        sent := [auth_request (example_env full_login_server) fresh_client]\<rparr>)"
proof -
  let ?e1 = "example_env denying_server" and ?e2 = "example_env full_login_server"
  let ?d = "[(''access'', JStr ''a2''), (''refresh'', JStr ''r2'')]"
  have a1: "http ?e1 (auth_request ?e1 fresh_client) = unauthorized"
    by (simp add: auth_request_def example_defs)
  have a2: "http ?e2 (auth_request ?e2 fresh_client) = grants ?d"
    by (simp add: auth_request_def example_defs)
  have c1: "status_code unauthorized \<noteq> 200" "resp_text unauthorized = ''denied''"
    by (simp_all add: example_defs)
  have c2: "status_code (grants ?d) = 200" "resp_json (grants ?d) = Some (JObj ?d)"
    "cred_path fresh_client = Some ''creds.json''"
    by (simp_all add: example_defs)
  from perform_auth_outcome [of ?e1 fresh_client] a1 c1
  have "perform_auth ?e1 fresh_client =
     (Inl (Exception ''Access not granted: denied''),
      fresh_client\<lparr>sent := sent fresh_client @ [auth_request ?e1 fresh_client]\<rparr>)"
    by simp
  moreover from perform_auth_outcome [of ?e2 fresh_client "''creds.json''"] a2 c2
  have "perform_auth ?e2 fresh_client =
     (Inr (),
      fresh_client\<lparr>access := dict_get ?d ''access'', refresh := dict_get ?d ''refresh'',
        files := (if truthy (dict_get ?d ''access'') \<and> truthy (dict_get ?d ''refresh'')
                  then (files fresh_client)(''creds.json'' \<mapsto> json_dumps ?e2 (JObj ?d))
                  else files fresh_client),
        sent := sent fresh_client @ [auth_request ?e2 fresh_client]\<rparr>)"
    by simp
  ultimately show ?thesis by (simp add: dict_get_def example_defs)
qed

text \<open>
  The claim as stated fails on two 200 responses. With the body \<^verbatim>\<open>{"access": "a3"}\<close> the
  login returns and no file is written: nothing is persisted. With a body that is no
  JSON the login raises at \<^verbatim>\<open>r.json()\<close> and the client keeps no token.
\<close>

theorem perform_auth_200_persists_nothing:
  "fst (perform_auth (example_env access_only_login_server) fresh_client) = Inr () \<and>
   access (snd (perform_auth (example_env access_only_login_server) fresh_client))
     = JStr ''a3'' \<and>
   refresh (snd (perform_auth (example_env access_only_login_server) fresh_client)) = JNull \<and>
   files (snd (perform_auth (example_env access_only_login_server) fresh_client)) ''creds.json''
     = None \<and>
   fst (perform_auth (example_env html_login_server) fresh_client) = Inl JSONDecodeError \<and>
   access (snd (perform_auth (example_env html_login_server) fresh_client)) = JNull \<and>
   files (snd (perform_auth (example_env html_login_server) fresh_client)) ''creds.json''
     = None"
  by (simp add: method_defs example_defs)

subsection \<open>C9: where the list request goes\<close>




subsection \<open>C10: what persisting does to the tokens in memory\<close>

text \<open>
  Claim C10. In every state the client reaches through its initializer and its methods,
  in whatever environments, \<^verbatim>\<open>write_creds\<close> with a mapping returns and overwrites the
  two tokens in memory with the \<open>access\<close> and \<open>refresh\<close> entries of the mapping, a missing
  key giving \<^verbatim>\<open>None\<close>, whether or not the file is written. (The guard of line 70 holds
  in all these states: the initializer raises on a path that is \<^verbatim>\<open>None\<close>, and no method
  changes the path.)
\<close>

theorem write_creds_overwrites_tokens:
  assumes "reachable any_json s"
  shows "fst (write_creds e (JObj d) s) = Inr () \<and>
         access (snd (write_creds e (JObj d) s)) = dict_get d ''access'' \<and>
         refresh (snd (write_creds e (JObj d) s)) = dict_get d ''refresh''"
proof -
  obtain p where "cred_path s = Some p" using assms reachable_has_path by blast
  then show ?thesis by (simp add: write_creds_obj)
qed

text \<open>
  A run with a partial mapping: after the login with the pair \<open>a2\<close>, \<open>r2\<close>,
  \<^verbatim>\<open>write_creds({'access': 'a3'})\<close> sets the refresh token to \<^verbatim>\<open>None\<close>, and the file keeps
  the pair it had.
\<close>

theorem write_creds_overwrites_tokens_witness:
  "reachable any_json logged_in_client \<and>
   access (snd (write_creds (example_env denying_server) (JObj [(''access'', JStr ''a3'')])
                  logged_in_client)) = JStr ''a3'' \<and>
   refresh (snd (write_creds (example_env denying_server) (JObj [(''access'', JStr ''a3'')])
                  logged_in_client)) = JNull \<and>
   files (snd (write_creds (example_env denying_server) (JObj [(''access'', JStr ''a3'')])
                  logged_in_client)) = [''creds.json'' \<mapsto> ''access=a2;refresh=r2;'']"
proof -
  have r: "reachable any_json logged_in_client"
    by (intro reachable_logged_in feeds_any_json)
  have p: "cred_path logged_in_client = Some ''creds.json''"
    by (simp add: logged_in_client_eq fresh_client_def)
  have f: "files (snd (write_creds (example_env denying_server)
                  (JObj [(''access'', JStr ''a3'')]) logged_in_client))
             = [''creds.json'' \<mapsto> ''access=a2;refresh=r2;'']"
    by (simp add: write_creds_obj [OF p] dict_get_def, simp add: logged_in_client_eq fresh_client_def)
  from write_creds_overwrites_tokens
         [OF r, of "example_env denying_server" "[(''access'', JStr ''a3'')]"] r f
  show ?thesis by (simp add: dict_get_def)
qed

text \<open>
  On a client whose path is \<^verbatim>\<open>None\<close>, a state no initializer returns, the guard makes
  \<^verbatim>\<open>write_creds\<close> change nothing: a full mapping is passed and both tokens stay \<^verbatim>\<open>None\<close>.
\<close>

lemma write_creds_without_path_keeps_tokens:
  "fst (write_creds (example_env denying_server)
          (JObj [(''access'', JStr ''a2''), (''refresh'', JStr ''r2'')]) pathless_client)
     = Inr () \<and>
   access (snd (write_creds (example_env denying_server)
          (JObj [(''access'', JStr ''a2''), (''refresh'', JStr ''r2'')]) pathless_client))
     = JNull \<and>
   refresh (snd (write_creds (example_env denying_server)
          (JObj [(''access'', JStr ''a2''), (''refresh'', JStr ''r2'')]) pathless_client))
     = JNull"
  by (simp add: method_defs example_defs)

section \<open>Further properties of the initializer and of clearing\<close>

subsection \<open>No stored file\<close>

text \<open>
  With no file at the persistence path, the initializer is the login: it sends the login
  request and no other.
\<close>

theorem post_init_without_file:
  assumes "cred_path s = Some p" "files s p = None"
  shows "post_init e s = perform_auth e s \<and>
         sent (snd (post_init e s)) = sent s @ [auth_request e s]"
  using assms by (simp add: post_init_def sent_perform_auth)

theorem post_init_without_file_witness:
  "post_init (example_env full_login_server) fresh_client =
     perform_auth (example_env full_login_server) fresh_client \<and>
   sent (snd (post_init (example_env full_login_server) fresh_client)) =
     [auth_request (example_env full_login_server) fresh_client]"
proof -
  have "cred_path fresh_client = Some ''creds.json''" "files fresh_client ''creds.json'' = None"
    "sent fresh_client = []"
    by (simp_all add: fresh_client_def)
  note h = this
  note both = post_init_without_file [of fresh_client "''creds.json''"
      "example_env full_login_server", OF h(1,2)]
  from both [THEN conjunct2] h(3)
  have "sent (snd (post_init (example_env full_login_server) fresh_client)) =
     [auth_request (example_env full_login_server) fresh_client]"
    by simp
  with both [THEN conjunct1] show ?thesis by (rule conjI)
qed

subsection \<open>A stored file that does not decode\<close>

text \<open>
  With a file that does not decode, or decodes to \<^verbatim>\<open>None\<close>, the initializer clears both
  tokens, removes the file and runs the login; the login request is the only one sent.
\<close>

theorem post_init_corrupt_file:
  assumes "cred_path s = Some p" "files s p = Some contents"
    "json_loads e contents = None \<or> json_loads e contents = Some JNull"
  shows "post_init e s =
           perform_auth e
             (s\<lparr>access := JNull, refresh := JNull, files := (files s)(p := None)\<rparr>) \<and>
         sent (snd (post_init e s)) = sent s @ [auth_request e s]"
proof -
  have "post_init e s = and_then clear_tokens (\<lambda>_. perform_auth e) s"
    using assms by (auto simp: post_init_def)
  then have "post_init e s =
      perform_auth e (s\<lparr>access := JNull, refresh := JNull, files := (files s)(p := None)\<rparr>)"
    by (simp add: and_then_def clear_tokens_path [OF assms(1)])
  then show ?thesis by (simp add: sent_perform_auth)
qed

theorem post_init_corrupt_file_witness:
  "post_init (example_env full_login_server) corrupt_client =
     perform_auth (example_env full_login_server) fresh_client \<and>
   sent (snd (post_init (example_env full_login_server) corrupt_client)) =
     [auth_request (example_env full_login_server) corrupt_client]"
proof -
  let ?e = "example_env full_login_server"
  have h: "cred_path corrupt_client = Some ''creds.json''"
    "files corrupt_client ''creds.json'' = Some ''{broken''"
    "json_loads ?e ''{broken'' = None \<or> json_loads ?e ''{broken'' = Some JNull"
    by (simp_all add: example_defs)
  have c: "corrupt_client\<lparr>access := JNull, refresh := JNull,
             files := (files corrupt_client)(''creds.json'' := None)\<rparr> = fresh_client"
    by (simp add: example_defs)
  have n: "sent corrupt_client = []" by (simp add: example_defs)
  note both = post_init_corrupt_file [OF h, unfolded c]
  from both [THEN conjunct2] n
  have "sent (snd (post_init ?e corrupt_client)) = [auth_request ?e corrupt_client]"
    by simp
  with both [THEN conjunct1] show ?thesis by (rule conjI)
qed

subsection \<open>A stored token that verifies\<close>

text \<open>
  With a file that decodes to a dict and a 200 to the verify request, the initializer
  loads the two tokens and returns; the verify request is the only one sent, and no file
  changes.
\<close>

theorem post_init_verified:
  assumes "cred_path s = Some p" "files s p = Some contents"
    "json_loads e contents = Some (JObj d)"
    and "status_code (http e (verify_request e
           (s\<lparr>access := dict_get d ''access'', refresh := dict_get d ''refresh''\<rparr>))) = 200"
  shows "post_init e s =
     (Inr (),
      s\<lparr>access := dict_get d ''access'', refresh := dict_get d ''refresh'',
        sent := sent s @ [verify_request e
           (s\<lparr>access := dict_get d ''access'', refresh := dict_get d ''refresh''\<rparr>)]\<rparr>)"
  using assms(4)
  by (simp add: post_init_stored [OF assms(1-3)] and_then_def verify_token_send done_with_def)

theorem post_init_verified_witness:
  "post_init (example_env verifying_server) stored_client =
     (Inr (), loaded_client\<lparr>sent := [verify_request (example_env verifying_server) loaded_client]\<rparr>)"
proof -
  let ?e = "example_env verifying_server"
  have l: "stored_client\<lparr>access := dict_get [(''access'', JStr ''bad''), (''refresh'', JStr ''r1'')] ''access'',
             refresh := dict_get [(''access'', JStr ''bad''), (''refresh'', JStr ''r1'')] ''refresh''\<rparr>
           = loaded_client"
    by (simp add: loaded_client_def dict_get_def)
  have h: "cred_path stored_client = Some ''creds.json''"
    "files stored_client ''creds.json'' = Some ''access=bad;refresh=r1;''"
    "json_loads ?e ''access=bad;refresh=r1;'' =
       Some (JObj [(''access'', JStr ''bad''), (''refresh'', JStr ''r1'')])"
    by (simp_all add: example_defs)
  have v: "status_code (http ?e (verify_request ?e loaded_client)) = 200"
    by (simp add: verify_request_def example_defs)
  have n: "sent stored_client = []" by (simp add: example_defs)
  from post_init_verified [OF h, unfolded l, OF v] n show ?thesis by simp
qed

subsection \<open>Clearing twice\<close>

text \<open>
  On a client with a persistence path, \<^verbatim>\<open>clear_tokens\<close> returns, and clearing again
  returns and changes nothing.
\<close>

theorem clear_tokens_idempotent:
  assumes "cred_path s = Some p"
  shows "fst (clear_tokens s) = Inr () \<and>
         clear_tokens (snd (clear_tokens s)) = (Inr (), snd (clear_tokens s))"
proof -
  let ?c = "s\<lparr>access := JNull, refresh := JNull, files := (files s)(p := None)\<rparr>"
  have first: "clear_tokens s = (Inr (), ?c)"
    by (rule clear_tokens_path [OF assms])
  have "cred_path ?c = Some p" using assms by simp
  then have "clear_tokens ?c = (Inr (), ?c)"
    by (simp add: clear_tokens_path [where p = p])
  then show ?thesis by (simp add: first)
qed

theorem clear_tokens_idempotent_witness:
  "fst (clear_tokens loaded_client) = Inr () \<and>
   clear_tokens (snd (clear_tokens loaded_client)) = (Inr (), snd (clear_tokens loaded_client)) \<and>
   snd (clear_tokens loaded_client) = fresh_client"
proof -
  have p: "cred_path loaded_client = Some ''creds.json''" by (simp add: example_defs)
  have "snd (clear_tokens loaded_client) = fresh_client"
    by (simp add: clear_tokens_path [OF p], simp add: example_defs)
  with clear_tokens_idempotent [OF p] show ?thesis by simp
qed

subsection \<open>The scenario of a stale access token\<close>

text \<open>
  The stored pair is \<open>bad\<close>, \<open>r1\<close>; the verify request gets a 401 and the refresh request a
  200 with the access token \<open>new\<close>. The initializer returns, the file holds \<open>new\<close> and
  \<open>r1\<close>, and the header is \<open>Bearer new\<close>.
\<close>

theorem post_init_stale_token_scenario:
  "fst (post_init (example_env new_access_server) stored_client) = Inr () \<and>
   files (snd (post_init (example_env new_access_server) stored_client))
     = [''creds.json'' \<mapsto> ''access=new;refresh=r1;''] \<and>
   get_headers (example_env new_access_server) None
     (snd (post_init (example_env new_access_server) stored_client))
     = [(''Authorization'', ''Bearer new'')] \<and>
   map url (sent (snd (post_init (example_env new_access_server) stored_client)))
     = [''http://localhost:8000/api/token/verify/'', ''http://localhost:8000/api/token/refresh/'']"
  by (simp add: method_defs example_defs)

end
